theory Spec2Isabelle
  imports Main "HOL-Library.Word" "HOL-Library.Multiset"
begin

section \<open>Data model (src/types.ts)\<close>

text \<open>
  A JavaScript string is a sequence of UTF-16 code units. Counters are JavaScript numbers
  that only ever hold small integers; they are modelled as unbounded integers.
\<close>

type_synonym jsstring = "16 word list"

definition ascii :: "string \<Rightarrow> jsstring" where
  "ascii s = map of_char s"

datatype card_status = New | Learning | Critical | Mastered

record card_stats =
  correctStreak :: int
  incorrectCount :: int
  status :: card_status

record FlashcardData =
  concept :: jsstring
  frontCode :: jsstring
  errorHighlight :: "jsstring option"
  backCode :: jsstring
  explanation :: jsstring

text \<open>The field \<open>id\<close> of the source is \<open>card_id\<close> here (\<open>id\<close> is the identity function of HOL).\<close>

record Flashcard = FlashcardData +
  card_id :: jsstring
  stats :: card_stats

section \<open>Mastery engine (src/App.tsx)\<close>

subsection \<open>handleUpdateCard\<close>

text \<open>The body of the \<open>map\<close> callback after the id test: the transition of the statistics.\<close>

definition updateStats :: "bool \<Rightarrow> card_stats \<Rightarrow> card_stats" where
  "updateStats isCorrect s =
     (if isCorrect then
        (let s1 = s\<lparr>correctStreak := correctStreak s + 1\<rparr> in
         if correctStreak s1 \<ge> 3 then s1\<lparr>status := Mastered\<rparr>
         else s1\<lparr>status := Learning\<rparr>)
      else
        (let s1 = s\<lparr>correctStreak := 0\<rparr>;
             s2 = s1\<lparr>incorrectCount := incorrectCount s1 + 1\<rparr> in
         if incorrectCount s2 \<ge> 3 then s2\<lparr>status := Critical\<rparr>
         else s2))"

definition updateCard :: "jsstring \<Rightarrow> bool \<Rightarrow> Flashcard \<Rightarrow> Flashcard" where
  "updateCard i isCorrect c =
     (if card_id c \<noteq> i then c
      else c\<lparr>stats := updateStats isCorrect (stats c)\<rparr>)"

text \<open>The state updater passed to \<open>setFlashcards\<close>: the new collection from the previous one.\<close>

definition handleUpdateCard :: "jsstring \<Rightarrow> bool \<Rightarrow> Flashcard list \<Rightarrow> Flashcard list" where
  "handleUpdateCard i isCorrect prev = map (updateCard i isCorrect) prev"

text \<open>
  How a call of \<open>handleUpdateCard\<close> completes. The source has no lookup of the id and no
  \<open>throw\<close>: every call completes normally with the mapped collection.
\<close>

datatype engine_error = NotFound

definition recordAnswer :: "jsstring \<Rightarrow> bool \<Rightarrow> Flashcard list \<Rightarrow> engine_error + Flashcard list" where
  "recordAnswer i isCorrect prev = Inr (handleUpdateCard i isCorrect prev)"

text \<open>A sequence of answers recorded on the same id, first answer first.\<close>

fun recordAnswers :: "jsstring \<Rightarrow> bool list \<Rightarrow> Flashcard list \<Rightarrow> Flashcard list" where
  "recordAnswers i [] cards = cards"
| "recordAnswers i (a # as) cards = recordAnswers i as (handleUpdateCard i a cards)"

subsection \<open>clearMasteredCards\<close>

text \<open>
  The function has no \<open>return\<close> statement: its value is \<open>undefined\<close>, modelled as \<open>None\<close>.
  It logs two numbers, \<open>countBefore\<close> and \<open>flashcards.length\<close>, both read from the collection
  of the current render, and replaces the collection by the filtered one.
\<close>

record clear_result =
  returned :: "nat option"
  logged :: "nat \<times> nat"
  collection :: "Flashcard list"

definition clearMasteredCards :: "Flashcard list \<Rightarrow> clear_result" where
  "clearMasteredCards flashcards =
     (let countBefore = length flashcards in
      \<lparr>returned = None,
       logged = (countBefore, length flashcards),
       collection = filter (\<lambda>c. status (stats c) \<noteq> Mastered) flashcards\<rparr>)"

subsection \<open>Example cards\<close>

definition draft_x :: FlashcardData where
  "draft_x = \<lparr>concept = ascii ''assignment'', frontCode = ascii ''x == 1'',
              errorHighlight = Some (ascii ''==''), backCode = ascii ''x = 1'',
              explanation = ascii ''one equals sign assigns''\<rparr>"

definition mk_card :: "string \<Rightarrow> int \<Rightarrow> int \<Rightarrow> card_status \<Rightarrow> Flashcard" where
  "mk_card i streak misses st =
     FlashcardData.extend draft_x
       (Flashcard.fields (ascii i) \<lparr>correctStreak = streak, incorrectCount = misses, status = st\<rparr>)"

section \<open>Review session (components/FlashcardReview.tsx)\<close>

subsection \<open>Answer normalisation\<close>

text \<open>
  The code units that the regular expression class \<open>\s\<close> matches and that \<open>trim\<close> strips:
  the white space and line terminator code points of ECMAScript.
\<close>

definition isWhiteSpace :: "16 word \<Rightarrow> bool" where
  "isWhiteSpace c =
     (c \<in> set [0x0009, 0x000A, 0x000B, 0x000C, 0x000D, 0x0020, 0x00A0, 0x1680,
               0x2028, 0x2029, 0x202F, 0x205F, 0x3000, 0xFEFF]
      \<or> (0x2000 \<le> c \<and> c \<le> 0x200A))"

text \<open>\<open>str.replace(/\s+/g, '')\<close>: every maximal run of white space is replaced by nothing.\<close>

function replaceWhiteSpaceRuns :: "jsstring \<Rightarrow> jsstring" where
  "replaceWhiteSpaceRuns [] = []"
| "replaceWhiteSpaceRuns (c # cs) =
     (if isWhiteSpace c then replaceWhiteSpaceRuns (dropWhile isWhiteSpace cs)
      else c # replaceWhiteSpaceRuns cs)"
  by pat_completeness auto
termination
  by (relation "measure length") (auto simp: length_dropWhile_le less_Suc_eq_le)

definition trim :: "jsstring \<Rightarrow> jsstring" where
  "trim str = rev (dropWhile isWhiteSpace (rev (dropWhile isWhiteSpace str)))"

definition normalize :: "jsstring \<Rightarrow> jsstring" where
  "normalize str = trim (replaceWhiteSpaceRuns str)"

text \<open>The comparison of \<open>handleCheck\<close>: \<open>normalize(userInput) === normalize(currentCard.backCode)\<close>.\<close>

definition answerMatches :: "jsstring \<Rightarrow> jsstring \<Rightarrow> bool" where
  "answerMatches userInput expected = (normalize userInput = normalize expected)"

subsection \<open>Session state\<close>

datatype check_result = Correct | Incorrect

record session =
  currentIndex :: nat
  userInput :: jsstring
  showResult :: "check_result option"

definition activeCards :: "Flashcard list \<Rightarrow> Flashcard list" where
  "activeCards cards = filter (\<lambda>c. status (stats c) \<noteq> Mastered) cards"

text \<open>\<open>activeCards[currentIndex]\<close>: \<open>undefined\<close>, here \<open>None\<close>, when the index is out of range.\<close>

definition currentCard :: "Flashcard list \<Rightarrow> session \<Rightarrow> Flashcard option" where
  "currentCard cards s =
     (if currentIndex s < length (activeCards cards)
      then Some (activeCards cards ! currentIndex s) else None)"

text \<open>What the component renders: the completion screen, nothing, or the current card.\<close>

datatype view = Completed | Nothing | ShowCard Flashcard

definition render :: "Flashcard list \<Rightarrow> session \<Rightarrow> view" where
  "render cards s =
     (if length (activeCards cards) = 0 then Completed
      else case currentCard cards s of None \<Rightarrow> Nothing | Some c \<Rightarrow> ShowCard c)"

text \<open>
  \<open>handleCheck\<close> exists only in a render that has a current card; without one the
  component has returned before defining it, and nothing changes.
\<close>

definition handleCheck :: "Flashcard list \<Rightarrow> session \<Rightarrow> Flashcard list \<times> session" where
  "handleCheck cards s =
     (case currentCard cards s of
        None \<Rightarrow> (cards, s)
      | Some cur \<Rightarrow>
          (let isCorrect = answerMatches (userInput s) (backCode cur) in
           (handleUpdateCard (card_id cur) isCorrect cards,
            s\<lparr>showResult := Some (if isCorrect then Correct else Incorrect)\<rparr>)))"

definition handleNext :: "Flashcard list \<Rightarrow> session \<Rightarrow> session" where
  "handleNext cards s =
     (let s1 = (if int (currentIndex s) < int (length (activeCards cards)) - 1
                then s\<lparr>currentIndex := currentIndex s + 1\<rparr>
                else s\<lparr>currentIndex := 0\<rparr>)
      in s1\<lparr>showResult := None, userInput := []\<rparr>)"

section \<open>Creating cards from a diagnosis (handleDiagnose in src/App.tsx)\<close>

text \<open>The decimal digits of a non-negative integer, as a template literal prints it.\<close>

definition digit :: "nat \<Rightarrow> 16 word" where
  "digit d = of_nat (48 + d)"

fun decimal :: "nat \<Rightarrow> jsstring" where
  "decimal n = (if n < 10 then [digit n] else decimal (n div 10) @ [digit (n mod 10)])"

declare decimal.simps [simp del]

text \<open>The id \<open>`${Date.now()}-${index}`\<close>.\<close>

definition makeId :: "nat \<Rightarrow> nat \<Rightarrow> jsstring" where
  "makeId now index = decimal now @ [0x002D] @ decimal index"

definition newCard :: "nat \<Rightarrow> nat \<Rightarrow> FlashcardData \<Rightarrow> Flashcard" where
  "newCard now index d =
     \<lparr>concept = concept d, frontCode = frontCode d, errorHighlight = errorHighlight d,
      backCode = backCode d, explanation = explanation d,
      card_id = makeId now index,
      stats = \<lparr>correctStreak = 0, incorrectCount = 0, status = New\<rparr>\<rparr>"

text \<open>
  \<open>Date.now()\<close> is read once for every draft, inside the \<open>map\<close> callback: \<open>clock index\<close> is
  the reading for the draft at position \<open>index\<close>.
\<close>

definition newCards :: "(nat \<Rightarrow> nat) \<Rightarrow> FlashcardData list \<Rightarrow> Flashcard list" where
  "newCards clock drafts =
     map (\<lambda>(index, d). newCard (clock index) index d) (enumerate 0 drafts)"

text \<open>
  The collection after a diagnosis whose \<open>generatedFlashcards\<close> is absent (\<open>None\<close>) or a
  sequence of drafts.
\<close>

definition processNewFlashcards ::
    "(nat \<Rightarrow> nat) \<Rightarrow> FlashcardData list option \<Rightarrow> Flashcard list \<Rightarrow> Flashcard list" where
  "processNewFlashcards clock generatedFlashcards prev =
     (case generatedFlashcards of
        None \<Rightarrow> prev
      | Some drafts \<Rightarrow> if length drafts > 0 then prev @ newCards clock drafts else prev)"

section \<open>Diagnosis request pipeline (src/services/geminiService.ts)\<close>

datatype json =
    JNull
  | JBool bool
  | JNumber int
  | JString jsstring
  | JArray "json list"
  | JObject "(jsstring \<times> json) list"

text \<open>
  One call of the generation collaborator: the call throws, or it answers with a response
  whose \<open>text\<close> is absent or a string.
\<close>

datatype gen_result = Throws | Response "jsstring option"

datatype pipeline_error = ApiKeyMissing | FailedAfterAttempts | UnexpectedRetryLoop

record run =
  outcome :: "pipeline_error + json"
  calls :: nat
  sleeps :: "nat list"

definition cleanCode :: "jsstring \<Rightarrow> jsstring" where
  "cleanCode code = trim (map (\<lambda>c. if c = 0x00A0 then 0x0020 else c) code)"

text \<open>
  The \<open>try\<close> block on one answer of the collaborator, with \<open>JSON.parse\<close> as the parameter
  \<open>parse\<close> (\<open>None\<close> where it throws): \<open>Some\<close> the returned value, or \<open>None\<close> when the block
  throws. Reading \<open>parsedData.trace\<close> for the log throws when the parsed value is \<open>null\<close>.
\<close>

definition tryBlock :: "(jsstring \<Rightarrow> json option) \<Rightarrow> gen_result \<Rightarrow> json option" where
  "tryBlock parse r =
     (case r of
        Throws \<Rightarrow> None
      | Response None \<Rightarrow> None
      | Response (Some text) \<Rightarrow>
          if text = [] then None
          else (case parse text of
                  None \<Rightarrow> None
                | Some parsedData \<Rightarrow> if parsedData = JNull then None else Some parsedData))"

definition maxAttempts :: nat where
  "maxAttempts = 5"

text \<open>
  The retry loop. \<open>gen k\<close> is the answer of the collaborator to call number \<open>k\<close> (from 0);
  \<open>ncalls\<close> counts the calls made and \<open>slept\<close> records the delays slept, in order.
\<close>

function retryLoop ::
    "(jsstring \<Rightarrow> json option) \<Rightarrow> (nat \<Rightarrow> gen_result) \<Rightarrow> nat \<Rightarrow> nat \<Rightarrow> nat list \<Rightarrow> run" where
  "retryLoop parse gen attempts ncalls slept =
     (if attempts < maxAttempts then
        (case tryBlock parse (gen ncalls) of
           Some parsedData \<Rightarrow> \<lparr>outcome = Inr parsedData, calls = ncalls + 1, sleeps = slept\<rparr>
         | None \<Rightarrow>
             if attempts + 1 \<ge> maxAttempts
             then \<lparr>outcome = Inl FailedAfterAttempts, calls = ncalls + 1, sleeps = slept\<rparr>
             else retryLoop parse gen (attempts + 1) (ncalls + 1)
                    (slept @ [1000 * 2 ^ (attempts + 1 - 1)]))
      else \<lparr>outcome = Inl UnexpectedRetryLoop, calls = ncalls, sleeps = slept\<rparr>)"
  by pat_completeness auto
termination
  by (relation "measure (\<lambda>(parse, gen, attempts, ncalls, slept). maxAttempts - attempts)") auto

declare retryLoop.simps [simp del]

text \<open>
  \<open>analyzeCode\<close>: \<open>apiKey\<close> is \<open>process.env.API_KEY\<close>; \<open>generate\<close> takes the cleaned code,
  from which the prompt is built, and the number of the call.
\<close>

definition analyzeCode ::
    "jsstring option \<Rightarrow> (jsstring \<Rightarrow> json option) \<Rightarrow> (jsstring \<Rightarrow> nat \<Rightarrow> gen_result) \<Rightarrow> jsstring \<Rightarrow> run" where
  "analyzeCode apiKey parse generate code =
     (if apiKey = None \<or> apiKey = Some []
      then \<lparr>outcome = Inl ApiKeyMissing, calls = 0, sleeps = []\<rparr>
      else retryLoop parse (generate (cleanCode code)) 0 0 [])"

text \<open>
  The validity of a diagnosis in the words of the specification: an object with a non-empty
  string \<open>rawError\<close> and a sequence \<open>trace\<close>.
\<close>

definition field :: "jsstring \<Rightarrow> json \<Rightarrow> json option" where
  "field k v = (case v of JObject fs \<Rightarrow> map_of fs k | _ \<Rightarrow> None)"

definition spec_validDiagnosis :: "json \<Rightarrow> bool" where
  "spec_validDiagnosis v =
     ((case field (ascii ''rawError'') v of Some (JString r) \<Rightarrow> r \<noteq> [] | _ \<Rightarrow> False) \<and>
      (case field (ascii ''trace'') v of Some (JArray t) \<Rightarrow> True | _ \<Rightarrow> False))"

text \<open>
  A collaborator that answers every call with the text \<open>{}\<close>, and the value of \<open>JSON.parse\<close>
  on that text, the empty object.
\<close>

definition generate_empty_object :: "jsstring \<Rightarrow> nat \<Rightarrow> gen_result" where
  "generate_empty_object prompt k = Response (Some (ascii ''{}''))"

definition parse_empty_object :: "jsstring \<Rightarrow> json option" where
  "parse_empty_object text = (if text = ascii ''{}'' then Some (JObject []) else None)"

definition generate_failing :: "jsstring \<Rightarrow> nat \<Rightarrow> gen_result" where
  "generate_failing prompt k = Throws"

section \<open>Example inputs\<close>

text \<open>
  A session that has advanced to the second of two active cards after a wrong answer on
  the first, with the right answer typed in.
\<close>

definition review_cards :: "Flashcard list" where
  "review_cards = [mk_card ''a'' 0 1 New, mk_card ''b'' 2 0 Learning]"

definition review_session :: session where
  "review_session = \<lparr>currentIndex = 1, userInput = ascii ''x=1'', showResult = None\<rparr>"

text \<open>Clocks that stand still during a call of \<open>handleDiagnose\<close>.\<close>

definition fixed_clock :: "nat \<Rightarrow> nat" where
  "fixed_clock index = 1700000000000"

definition earlier_clock :: "nat \<Rightarrow> nat" where
  "earlier_clock index = 1699999999999"

text \<open>A collaborator whose first two calls throw and whose later calls answer \<open>{}\<close>.\<close>

definition generate_fail_twice :: "jsstring \<Rightarrow> nat \<Rightarrow> gen_result" where
  "generate_fail_twice prompt k = (if k < 2 then Throws else Response (Some (ascii ''{}'')))"

section \<open>Properties of the mastery engine\<close>

lemmas example_defs = mk_card_def draft_x_def FlashcardData.extend_def Flashcard.fields_def ascii_def

text \<open>
  C1. A call of \<open>handleUpdateCard\<close> keeps the length and order of the collection. A card
  whose id differs from the given one is unchanged. On a card with the given id only the
  statistics change: a correct answer adds 1 to \<open>correctStreak\<close>, keeps \<open>incorrectCount\<close>,
  and sets the status to mastered when the new streak is at least 3 and to learning
  otherwise; an incorrect answer sets \<open>correctStreak\<close> to 0, adds 1 to \<open>incorrectCount\<close>, and
  sets the status to critical when the new count is at least 3 and keeps it otherwise.
\<close>

theorem handleUpdateCard_transition:
  "length (handleUpdateCard i isCorrect cards) = length cards \<and>
   (\<forall>k<length cards.
      let c = cards ! k; c' = handleUpdateCard i isCorrect cards ! k in
      if card_id c \<noteq> i then c' = c
      else c' = c\<lparr>stats := stats c'\<rparr> \<and>
           (if isCorrect then
              stats c' = \<lparr>correctStreak = correctStreak (stats c) + 1,
                          incorrectCount = incorrectCount (stats c),
                          status = (if correctStreak (stats c) + 1 \<ge> 3 then Mastered else Learning)\<rparr>
            else
              stats c' = \<lparr>correctStreak = 0,
                          incorrectCount = incorrectCount (stats c) + 1,
                          status = (if incorrectCount (stats c) + 1 \<ge> 3 then Critical
                                    else status (stats c))\<rparr>))"
  by (simp add: handleUpdateCard_def updateCard_def updateStats_def Let_def)

theorem handleUpdateCard_transition_witness:
  "handleUpdateCard (ascii ''b'') True [mk_card ''a'' 0 1 Learning, mk_card ''b'' 2 0 Learning] ! 0
     = mk_card ''a'' 0 1 Learning \<and>
   stats (handleUpdateCard (ascii ''b'') True [mk_card ''a'' 0 1 Learning, mk_card ''b'' 2 0 Learning] ! 1)
     = \<lparr>correctStreak = 3, incorrectCount = 0, status = Mastered\<rparr> \<and>
   stats (handleUpdateCard (ascii ''b'') False [mk_card ''a'' 0 1 Learning, mk_card ''b'' 2 0 Learning] ! 1)
     = \<lparr>correctStreak = 0, incorrectCount = 1, status = Learning\<rparr>"
  using handleUpdateCard_transition [of "ascii ''b''" True "[mk_card ''a'' 0 1 Learning, mk_card ''b'' 2 0 Learning]"]
        handleUpdateCard_transition [of "ascii ''b''" False "[mk_card ''a'' 0 1 Learning, mk_card ''b'' 2 0 Learning]"]
  by (simp add: example_defs handleUpdateCard_def updateCard_def updateStats_def)

text \<open>
  C10. An incorrect answer on a card with status new whose new \<open>incorrectCount\<close> is still
  below 3 leaves the status new.
\<close>

theorem new_card_incorrect_stays_new:
  assumes "k < length cards" and "card_id (cards ! k) = i"
    and "status (stats (cards ! k)) = New"
    and "incorrectCount (stats (cards ! k)) + 1 < 3"
  shows "status (stats (handleUpdateCard i False cards ! k)) = New"
  using assms by (simp add: handleUpdateCard_def updateCard_def updateStats_def Let_def)

theorem new_card_incorrect_stays_new_witness:
  "status (stats (handleUpdateCard (ascii ''a'') False [mk_card ''a'' 0 0 New] ! 0)) = New"
  using new_card_incorrect_stays_new [of 0 "[mk_card ''a'' 0 0 New]" "ascii ''a''"]
  by (simp add: example_defs)

text \<open>
  C2, as stated, fails: a fresh card answered wrong, wrong, right, right, right is mastered,
  and one more incorrect answer makes it critical.
\<close>

theorem mastery_not_sticky_counterexample:
  "status (stats (recordAnswers (ascii ''c'') [False, False, True, True, True]
                    [mk_card ''c'' 0 0 New] ! 0)) = Mastered \<and>
   status (stats (recordAnswers (ascii ''c'') [False, False, True, True, True, False]
                    [mk_card ''c'' 0 0 New] ! 0)) = Critical"
  by (simp add: example_defs handleUpdateCard_def updateCard_def updateStats_def)

text \<open>
  C2, amended. An answer recorded on a mastered card applies the same transition as on any
  other card: a correct answer keeps it mastered when the new streak is at least 3 and
  makes it learning otherwise; an incorrect answer resets the streak, adds 1 to
  \<open>incorrectCount\<close>, and keeps it mastered when the new count is below 3 and makes it critical
  otherwise.
\<close>

theorem mastered_card_after_answer:
  assumes "k < length cards" and "card_id (cards ! k) = i"
    and "status (stats (cards ! k)) = Mastered"
  shows "stats (handleUpdateCard i isCorrect cards ! k) =
           (if isCorrect then
              \<lparr>correctStreak = correctStreak (stats (cards ! k)) + 1,
               incorrectCount = incorrectCount (stats (cards ! k)),
               status = (if correctStreak (stats (cards ! k)) + 1 \<ge> 3 then Mastered else Learning)\<rparr>
            else
              \<lparr>correctStreak = 0,
               incorrectCount = incorrectCount (stats (cards ! k)) + 1,
               status = (if incorrectCount (stats (cards ! k)) + 1 \<ge> 3 then Critical else Mastered)\<rparr>)"
  using assms by (simp add: handleUpdateCard_def updateCard_def updateStats_def Let_def)

theorem mastered_card_after_answer_witness:
  "stats (handleUpdateCard (ascii ''m'') False [mk_card ''m'' 3 0 Mastered] ! 0)
     = \<lparr>correctStreak = 0, incorrectCount = 1, status = Mastered\<rparr>"
  using mastered_card_after_answer [of 0 "[mk_card ''m'' 3 0 Mastered]" "ascii ''m''" False]
  by (simp add: example_defs)

text \<open>
  C9, as stated, fails: recording an answer on an id that no card has completes normally.
\<close>

theorem recordAnswer_unknown_id_counterexample:
  "recordAnswer (ascii ''zz'') True [mk_card ''a'' 0 0 New] = Inr [mk_card ''a'' 0 0 New]"
  by (simp add: recordAnswer_def example_defs handleUpdateCard_def updateCard_def)

text \<open>
  C9, amended. For an id that matches no card of the collection, the call completes
  normally and leaves the collection as it was.
\<close>

theorem recordAnswer_unknown_id_unchanged:
  assumes "\<forall>c \<in> set cards. card_id c \<noteq> i"
  shows "recordAnswer i isCorrect cards = Inr cards"
  using assms by (simp add: recordAnswer_def handleUpdateCard_def updateCard_def map_idI)

theorem recordAnswer_unknown_id_unchanged_witness:
  "recordAnswer (ascii ''zz'') False [mk_card ''a'' 1 0 Learning] = Inr [mk_card ''a'' 1 0 Learning]"
  using recordAnswer_unknown_id_unchanged [of "[mk_card ''a'' 1 0 Learning]" "ascii ''zz''" False]
  by (simp add: example_defs)

text \<open>
  C8, as stated, fails: one mastered card is removed, and the value of the call is not the
  count 1.
\<close>

theorem clearMasteredCards_returns_nothing_counterexample:
  "collection (clearMasteredCards [mk_card ''a'' 3 0 Mastered, mk_card ''b'' 0 0 New])
     = [mk_card ''b'' 0 0 New] \<and>
   returned (clearMasteredCards [mk_card ''a'' 3 0 Mastered, mk_card ''b'' 0 0 New]) \<noteq> Some 1"
  by (simp add: clearMasteredCards_def example_defs)

text \<open>
  C8, amended. \<open>clearMasteredCards\<close> returns no value. The collection it leaves is the
  non-mastered cards in their order: together with the mastered cards they make up the
  previous collection, so the number of cards removed is the number of mastered cards. A
  second call right after removes nothing.
\<close>

theorem clearMasteredCards_removes_mastered:
  "returned (clearMasteredCards cards) = None \<and>
   collection (clearMasteredCards cards) = filter (\<lambda>c. status (stats c) \<noteq> Mastered) cards \<and>
   mset cards = mset (collection (clearMasteredCards cards))
                  + mset (filter (\<lambda>c. status (stats c) = Mastered) cards) \<and>
   length cards - length (collection (clearMasteredCards cards))
     = length (filter (\<lambda>c. status (stats c) = Mastered) cards) \<and>
   collection (clearMasteredCards (collection (clearMasteredCards cards)))
     = collection (clearMasteredCards cards)"
proof -
  have "length cards = length (filter (\<lambda>c. status (stats c) \<noteq> Mastered) cards)
          + length (filter (\<lambda>c. status (stats c) = Mastered) cards)"
    using sum_length_filter_compl [of "\<lambda>c. status (stats c) \<noteq> Mastered" cards] by simp
  then show ?thesis
    by (simp add: clearMasteredCards_def)
qed

section \<open>Properties of the review session\<close>

lemma filter_dropWhile_neg:
  "filter (\<lambda>x. \<not> P x) (dropWhile P xs) = filter (\<lambda>x. \<not> P x) xs"
  by (induction xs) auto

lemma replaceWhiteSpaceRuns_filter:
  "replaceWhiteSpaceRuns str = filter (\<lambda>c. \<not> isWhiteSpace c) str"
  by (induction str rule: replaceWhiteSpaceRuns.induct) (auto simp: filter_dropWhile_neg)

lemma dropWhile_none:
  "\<forall>x \<in> set xs. \<not> P x \<Longrightarrow> dropWhile P xs = xs"
  by (cases xs) auto

lemma trim_without_whitespace:
  assumes "\<forall>c \<in> set str. \<not> isWhiteSpace c"
  shows "trim str = str"
proof -
  have "dropWhile isWhiteSpace str = str"
    using assms by (rule dropWhile_none)
  moreover have "dropWhile isWhiteSpace (rev str) = rev str"
    using assms by (intro dropWhile_none) simp
  ultimately show ?thesis by (simp add: trim_def)
qed

lemma normalize_filter:
  "normalize str = filter (\<lambda>c. \<not> isWhiteSpace c) str"
  by (simp add: normalize_def replaceWhiteSpaceRuns_filter trim_without_whitespace)

text \<open>
  C5. The check of \<open>handleCheck\<close> holds exactly when the typed answer and the expected code
  are the same sequence of code units once every white space code unit is removed from
  both, wherever it stands; code units are compared as they are, so case matters. The
  answer \<open>" x = 1 "\<close> matches \<open>"x=1"\<close>, and \<open>"x = 1"\<close> does not match \<open>"x = 2"\<close>.
\<close>

theorem answerMatches_iff_equal_without_whitespace:
  "(answerMatches answer expected \<longleftrightarrow>
      filter (\<lambda>c. \<not> isWhiteSpace c) answer = filter (\<lambda>c. \<not> isWhiteSpace c) expected) \<and>
   answerMatches (ascii '' x = 1 '') (ascii ''x=1'') \<and>
   \<not> answerMatches (ascii ''x = 1'') (ascii ''x = 2'')"
  by (simp add: answerMatches_def normalize_filter ascii_def isWhiteSpace_def)

text \<open>
  C7, on the code. With two active cards and the pointer on the second, a correct answer
  that masters the second card leaves one active card and the pointer at 1: the pointer is
  no index of the recomputed active cards, there is no current card, and the component
  renders nothing although an active card remains.
\<close>

theorem stale_pointer_after_mastering:
  "currentCard review_cards review_session = Some (mk_card ''b'' 2 0 Learning) \<and>
   activeCards (fst (handleCheck review_cards review_session)) = [mk_card ''a'' 0 1 New] \<and>
   currentIndex (snd (handleCheck review_cards review_session)) = 1 \<and>
   currentCard (fst (handleCheck review_cards review_session))
               (snd (handleCheck review_cards review_session)) = None \<and>
   render (fst (handleCheck review_cards review_session))
          (snd (handleCheck review_cards review_session)) = Nothing"
  by (simp add: render_def currentCard_def activeCards_def review_cards_def review_session_def
      handleCheck_def handleUpdateCard_def updateCard_def updateStats_def
      answerMatches_def normalize_filter isWhiteSpace_def example_defs)

text \<open>
  The advancing half of C7 holds. While active cards remain, \<open>handleNext\<close> moves the pointer
  to the next index of the recomputed active cards if there is one and to 0 otherwise; the
  pointer it leaves is a valid index of the active cards, and the card there is shown.
\<close>

lemma handleNext_valid_pointer:
  assumes "activeCards cards \<noteq> []"
  shows "currentIndex (handleNext cards s) < length (activeCards cards) \<and>
         currentIndex (handleNext cards s) =
           (if currentIndex s + 1 < length (activeCards cards) then currentIndex s + 1 else 0) \<and>
         currentCard cards (handleNext cards s)
           = Some (activeCards cards ! currentIndex (handleNext cards s)) \<and>
         render cards (handleNext cards s)
           = ShowCard (activeCards cards ! currentIndex (handleNext cards s))"
  using assms by (auto simp: handleNext_def currentCard_def render_def Let_def)

lemma handleNext_valid_pointer_example:
  "currentIndex (handleNext review_cards review_session) = 0 \<and>
   render review_cards (handleNext review_cards review_session) = ShowCard (mk_card ''a'' 0 1 New)"
  using handleNext_valid_pointer [of review_cards review_session]
  by (simp add: activeCards_def review_cards_def review_session_def example_defs)

section \<open>Properties of card creation\<close>

lemma digit_unat:
  assumes "d < 10"
  shows "unat (digit d) = 48 + d"
proof -
  have "unat (digit d) = (48 + d) mod 2 ^ 16"
    by (simp only: digit_def unat_of_nat) simp
  with assms show ?thesis by simp
qed

lemma digit_inj:
  assumes "d < 10" and "e < 10" and "digit d = digit e"
  shows "d = e"
proof -
  have "unat (digit d) = unat (digit e)"
    using assms(3) by (rule arg_cong)
  then have "48 + d = 48 + e"
    by (simp only: digit_unat [OF assms(1)] digit_unat [OF assms(2)])
  then show ?thesis by simp
qed

lemma digit_not_dash: "d < 10 \<Longrightarrow> digit d \<noteq> 0x002D"
proof
  assume "d < 10" and "digit d = 0x002D"
  then have "unat (0x002D :: 16 word) = 48 + d"
    using digit_unat [of d] by (simp only:)
  then show False by simp
qed

lemma decimal_not_Nil: "decimal n \<noteq> []"
  by (subst decimal.simps) simp

lemma decimal_no_dash: "0x002D \<notin> set (decimal n)"
proof (induction n rule: decimal.induct)
  case (1 n)
  show ?case
  proof (cases "n < 10")
    case True
    then show ?thesis
      using digit_not_dash [of n] by (subst decimal.simps) auto
  next
    case False
    then show ?thesis
      using "1.IH" digit_not_dash [of "n mod 10"] by (subst decimal.simps) auto
  qed
qed

lemma decimal_inj: "decimal a = decimal b \<Longrightarrow> a = b"
proof (induction a arbitrary: b rule: decimal.induct)
  case (1 a)
  show ?case
  proof (cases "a < 10")
    case small_a: True
    show ?thesis
    proof (cases "b < 10")
      case True
      with small_a "1.prems" show ?thesis
        by (simp add: decimal.simps [of a] decimal.simps [of b] digit_inj)
    next
      case False
      with small_a "1.prems" decimal_not_Nil [of "b div 10"] show ?thesis
        by (simp add: decimal.simps [of a] decimal.simps [of b])
    qed
  next
    case big_a: False
    show ?thesis
    proof (cases "b < 10")
      case True
      with big_a "1.prems" decimal_not_Nil [of "a div 10"] show ?thesis
        by (simp add: decimal.simps [of a] decimal.simps [of b])
    next
      case False
      with big_a "1.prems" have parts: "decimal (a div 10) = decimal (b div 10)"
          "digit (a mod 10) = digit (b mod 10)"
        by (simp_all add: decimal.simps [of a] decimal.simps [of b])
      from parts(1) big_a have "a div 10 = b div 10"
        by (rule "1.IH" [rotated])
      moreover from parts(2) have "a mod 10 = b mod 10"
        by (simp add: digit_inj)
      ultimately show ?thesis
        by (metis div_mult_mod_eq)
    qed
  qed
qed

lemma makeId_inj: "makeId t i = makeId t' i' \<longleftrightarrow> t = t' \<and> i = i'"
proof
  assume "makeId t i = makeId t' i'"
  then have "decimal t @ 0x002D # decimal i = decimal t' @ 0x002D # decimal i'"
    by (simp add: makeId_def)
  then have "decimal t = decimal t' \<and> decimal i = decimal i'"
    using decimal_no_dash append_Cons_eq_iff by metis
  then show "t = t' \<and> i = i'"
    by (simp add: decimal_inj)
qed simp

lemma newCards_nth:
  "k < length drafts \<Longrightarrow> newCards clock drafts ! k = newCard (clock k) k (drafts ! k)"
  by (simp add: newCards_def nth_enumerate_eq)

lemma length_newCards: "length (newCards clock drafts) = length drafts"
  by (simp add: newCards_def)

lemma card_id_newCard: "card_id (newCard t k d) = makeId t k"
  by (simp add: newCard_def)

lemma distinct_newCards: "distinct (map card_id (newCards clock drafts))"
  by (auto simp: distinct_conv_nth length_newCards newCards_nth card_id_newCard makeId_inj)

text \<open>
  C6, as stated, fails: two calls at the same clock reading, each with one draft, give both
  new cards the same id.
\<close>

theorem duplicate_id_counterexample:
  "map card_id (processNewFlashcards fixed_clock (Some [draft_x])
                  (processNewFlashcards fixed_clock (Some [draft_x]) []))
     = [ascii ''1700000000000-0'', ascii ''1700000000000-0'']"
  by (simp add: processNewFlashcards_def newCards_def newCard_def makeId_def fixed_clock_def
      enumerate_eq_zip decimal.simps digit_def ascii_def)


text \<open>
  C6, amended. The new cards are appended after the existing collection, which is kept as
  it is, one card for each draft in draft order; absent drafts leave the collection as it
  is. The card at position \<open>k\<close> carries the fields of draft \<open>k\<close>, the id made of the clock
  reading and \<open>k\<close>, and the initial statistics. The new ids differ from each other, and
  they differ from every existing id that was made from another clock reading.
\<close>

theorem processNewFlashcards_appends_fresh_cards:
  "processNewFlashcards clock None prev = prev \<and>
   processNewFlashcards clock (Some drafts) prev = prev @ newCards clock drafts \<and>
   length (newCards clock drafts) = length drafts \<and>
   (\<forall>k<length drafts.
      FlashcardData.truncate (newCards clock drafts ! k) = drafts ! k \<and>
      card_id (newCards clock drafts ! k) = makeId (clock k) k \<and>
      stats (newCards clock drafts ! k) = \<lparr>correctStreak = 0, incorrectCount = 0, status = New\<rparr>) \<and>
   distinct (map card_id (newCards clock drafts)) \<and>
   ((\<forall>c \<in> set prev. \<exists>t j. card_id c = makeId t j \<and> (\<forall>k<length drafts. clock k \<noteq> t)) \<longrightarrow>
      (\<forall>c \<in> set prev. \<forall>n \<in> set (newCards clock drafts). card_id c \<noteq> card_id n))"
proof -
  have fresh: "card_id c \<noteq> card_id n"
    if old: "\<forall>c \<in> set prev. \<exists>t j. card_id c = makeId t j \<and> (\<forall>k<length drafts. clock k \<noteq> t)"
      and c: "c \<in> set prev" and n: "n \<in> set (newCards clock drafts)" for c n
  proof -
    from old c obtain t j where t: "card_id c = makeId t j" "\<forall>k<length drafts. clock k \<noteq> t"
      by blast
    from n obtain k where k: "k < length drafts" "n = newCards clock drafts ! k"
      by (auto simp: in_set_conv_nth length_newCards)
    then have "card_id n = makeId (clock k) k"
      by (simp add: newCards_nth card_id_newCard)
    with t k(1) show ?thesis
      by (auto simp: makeId_inj)
  qed
  have fields: "FlashcardData.truncate (newCard t k d) = d" for t k d
    by (simp add: newCard_def FlashcardData.truncate_def)
  have init: "stats (newCard t k d) = \<lparr>correctStreak = 0, incorrectCount = 0, status = New\<rparr>"
    for t k d
    by (simp add: newCard_def)
  have empty: "newCards clock [] = []"
    by (simp add: newCards_def)
  have "processNewFlashcards clock (Some drafts) prev = prev @ newCards clock drafts"
    by (cases drafts) (simp_all add: processNewFlashcards_def empty)
  moreover have "processNewFlashcards clock None prev = prev"
    by (simp add: processNewFlashcards_def)
  ultimately show ?thesis
    using fresh distinct_newCards [of clock drafts]
    by (simp add: length_newCards newCards_nth card_id_newCard fields init)
qed

theorem processNewFlashcards_appends_fresh_cards_witness:
  "map card_id (processNewFlashcards fixed_clock (Some [draft_x, draft_x])
                  (newCards earlier_clock [draft_x]))
     = [ascii ''1699999999999-0'', ascii ''1700000000000-0'', ascii ''1700000000000-1''] \<and>
   distinct (map card_id (processNewFlashcards fixed_clock (Some [draft_x, draft_x])
                            (newCards earlier_clock [draft_x])))"
proof -
  let ?prev = "newCards earlier_clock [draft_x]"
  let ?new = "newCards fixed_clock [draft_x, draft_x]"
  note inst = processNewFlashcards_appends_fresh_cards [of fixed_clock ?prev "[draft_x, draft_x]"]
  have old: "\<forall>c \<in> set ?prev. \<exists>t j. card_id c = makeId t j \<and>
               (\<forall>k<length [draft_x, draft_x]. fixed_clock k \<noteq> t)"
  proof
    fix c assume "c \<in> set ?prev"
    then have "card_id c = makeId 1699999999999 0"
      by (simp add: newCards_def newCard_def enumerate_eq_zip earlier_clock_def)
    moreover have "\<forall>k<length [draft_x, draft_x]. fixed_clock k \<noteq> 1699999999999"
      by (simp add: fixed_clock_def)
    ultimately show "\<exists>t j. card_id c = makeId t j \<and>
               (\<forall>k<length [draft_x, draft_x]. fixed_clock k \<noteq> t)"
      by blast
  qed
  with inst have disjoint: "\<forall>c \<in> set ?prev. \<forall>n \<in> set ?new. card_id c \<noteq> card_id n"
    by blast
  from inst have app: "processNewFlashcards fixed_clock (Some [draft_x, draft_x]) ?prev = ?prev @ ?new"
    and dist: "distinct (map card_id ?new)"
    by simp_all
  have ids: "map card_id (?prev @ ?new)
      = [ascii ''1699999999999-0'', ascii ''1700000000000-0'', ascii ''1700000000000-1'']"
    by (simp add: newCards_def newCard_def makeId_def fixed_clock_def earlier_clock_def
        enumerate_eq_zip decimal.simps digit_def ascii_def)
  have "distinct (map card_id ?prev)"
    by (simp add: newCards_def)
  with disjoint dist have "distinct (map card_id (?prev @ ?new))"
    by auto
  with app ids show ?thesis
    by (simp only:)
qed

section \<open>Properties of the diagnosis request pipeline\<close>

lemma retryLoop_success:
  "attempts < 5 \<Longrightarrow> tryBlock parse (gen n) = Some v \<Longrightarrow>
   retryLoop parse gen attempts n slept = \<lparr>outcome = Inr v, calls = n + 1, sleeps = slept\<rparr>"
  by (subst retryLoop.simps) (simp add: maxAttempts_def)

lemma retryLoop_last_failure:
  "tryBlock parse (gen n) = None \<Longrightarrow>
   retryLoop parse gen 4 n slept
     = \<lparr>outcome = Inl FailedAfterAttempts, calls = n + 1, sleeps = slept\<rparr>"
  by (subst retryLoop.simps) (simp add: maxAttempts_def)

lemma retryLoop_retry:
  "attempts < 4 \<Longrightarrow> tryBlock parse (gen n) = None \<Longrightarrow>
   attempts' = attempts + 1 \<Longrightarrow> n' = n + 1 \<Longrightarrow> slept' = slept @ [1000 * 2 ^ attempts] \<Longrightarrow>
   retryLoop parse gen attempts n slept = retryLoop parse gen attempts' n' slept'"
  by (subst retryLoop.simps) (simp add: maxAttempts_def)

lemma less_numeral_cases:
  "k < (2::nat) \<longleftrightarrow> k = 0 \<or> k = 1"
  "k < (3::nat) \<longleftrightarrow> k = 0 \<or> k = 1 \<or> k = 2"
  "k < (4::nat) \<longleftrightarrow> k = 0 \<or> k = 1 \<or> k = 2 \<or> k = 3"
  "k < (5::nat) \<longleftrightarrow> k = 0 \<or> k = 1 \<or> k = 2 \<or> k = 3 \<or> k = 4"
  by arith+

lemma retryLoop_runs:
  fixes parse gen
  defines "r \<equiv> retryLoop parse gen 0 0 []"
  shows "(\<exists>k<5. \<exists>v. (\<forall>j<k. tryBlock parse (gen j) = None) \<and> tryBlock parse (gen k) = Some v \<and>
            r = \<lparr>outcome = Inr v, calls = k + 1, sleeps = take k [1000, 2000, 4000, 8000]\<rparr>) \<or>
         ((\<forall>j<5. tryBlock parse (gen j) = None) \<and>
            r = \<lparr>outcome = Inl FailedAfterAttempts, calls = 5, sleeps = [1000, 2000, 4000, 8000]\<rparr>)"
proof (cases "tryBlock parse (gen 0)")
  case (Some v)
  then have "r = \<lparr>outcome = Inr v, calls = 1, sleeps = []\<rparr>"
    by (simp add: r_def retryLoop_success)
  with Some show ?thesis by (intro disjI1 exI [of _ 0]) simp
next
  case f0: None
  then have r1: "r = retryLoop parse gen 1 1 [1000]"
    unfolding r_def by (intro retryLoop_retry) simp_all
  show ?thesis
  proof (cases "tryBlock parse (gen 1)")
    case (Some v)
    then have "r = \<lparr>outcome = Inr v, calls = 2, sleeps = [1000]\<rparr>"
      by (simp add: r1 retryLoop_success)
    with Some f0 show ?thesis by (intro disjI1 exI [of _ 1]) simp
  next
    case f1: None
    then have r2: "r = retryLoop parse gen 2 2 [1000, 2000]"
      unfolding r1 by (intro retryLoop_retry) simp_all
    show ?thesis
    proof (cases "tryBlock parse (gen 2)")
      case (Some v)
      then have "r = \<lparr>outcome = Inr v, calls = 3, sleeps = [1000, 2000]\<rparr>"
        by (simp add: r2 retryLoop_success)
      with Some f0 f1 show ?thesis
        by (intro disjI1 exI [of _ 2]) (simp add: less_numeral_cases)
    next
      case f2: None
      then have r3: "r = retryLoop parse gen 3 3 [1000, 2000, 4000]"
        unfolding r2 by (intro retryLoop_retry) simp_all
      show ?thesis
      proof (cases "tryBlock parse (gen 3)")
        case (Some v)
        then have "r = \<lparr>outcome = Inr v, calls = 4, sleeps = [1000, 2000, 4000]\<rparr>"
          by (simp add: r3 retryLoop_success)
        with Some f0 f1 f2 show ?thesis
          by (intro disjI1 exI [of _ 3]) (simp add: less_numeral_cases)
      next
        case f3: None
        then have r4: "r = retryLoop parse gen 4 4 [1000, 2000, 4000, 8000]"
          unfolding r3 by (intro retryLoop_retry) simp_all
        show ?thesis
        proof (cases "tryBlock parse (gen 4)")
          case (Some v)
          then have "r = \<lparr>outcome = Inr v, calls = 5, sleeps = [1000, 2000, 4000, 8000]\<rparr>"
            by (simp add: r4 retryLoop_success)
          with Some f0 f1 f2 f3 show ?thesis
            by (intro disjI1 exI [of _ 4]) (simp add: less_numeral_cases)
        next
          case f4: None
          then have "r = \<lparr>outcome = Inl FailedAfterAttempts, calls = 5,
                          sleeps = [1000, 2000, 4000, 8000]\<rparr>"
            by (simp add: r4 retryLoop_last_failure)
          with f0 f1 f2 f3 f4 show ?thesis
            by (intro disjI2) (simp add: less_numeral_cases)
        qed
      qed
    qed
  qed
qed


lemma analyzeCode_with_key:
  "apiKey \<noteq> None \<Longrightarrow> apiKey \<noteq> Some [] \<Longrightarrow>
   analyzeCode apiKey parse generate code = retryLoop parse (generate (cleanCode code)) 0 0 []"
  by (auto simp: analyzeCode_def)

lemma backoff_delays:
  "k < 5 \<Longrightarrow> take k [1000, 2000, 4000, 8000 :: nat] = map (\<lambda>a. 1000 * 2 ^ (a - 1)) [1..<k + 1]"
proof -
  have "map (\<lambda>a. 1000 * 2 ^ (a - 1)) [1..<0 + 1] = ([] :: nat list)"
    "map (\<lambda>a. 1000 * 2 ^ (a - 1)) [1..<1 + 1] = [1000 :: nat]"
    "map (\<lambda>a. 1000 * 2 ^ (a - 1)) [1..<2 + 1] = [1000, 2000 :: nat]"
    "map (\<lambda>a. 1000 * 2 ^ (a - 1)) [1..<3 + 1] = [1000, 2000, 4000 :: nat]"
    "map (\<lambda>a. 1000 * 2 ^ (a - 1)) [1..<4 + 1] = [1000, 2000, 4000, 8000 :: nat]"
    by code_simp+
  moreover assume "k < 5"
  ultimately show ?thesis
    unfolding less_numeral_cases by (elim disjE) (simp_all only: take_0 take_Suc_Cons, simp_all)
qed

text \<open>
  C3. \<open>analyzeCode\<close> calls the collaborator at most 5 times. With an API key it calls at
  least once, every call before the last one has failed, and the delays slept between
  consecutive attempts are the first of 1000, 2000, 4000, 8000, that is
  \<open>1000 * 2 ^ (attempt - 1)\<close>. When all five attempts fail the result is the terminal
  failure after exactly 5 calls and the four delays; the terminal failure arises in no
  other way.
\<close>

theorem analyzeCode_retry_budget:
  "calls (analyzeCode apiKey parse generate code) \<le> 5 \<and>
   (apiKey \<noteq> None \<and> apiKey \<noteq> Some [] \<longrightarrow>
      1 \<le> calls (analyzeCode apiKey parse generate code) \<and>
      (\<forall>j < calls (analyzeCode apiKey parse generate code) - 1.
         tryBlock parse (generate (cleanCode code) j) = None) \<and>
      sleeps (analyzeCode apiKey parse generate code)
        = take (calls (analyzeCode apiKey parse generate code) - 1) [1000, 2000, 4000, 8000] \<and>
      sleeps (analyzeCode apiKey parse generate code)
        = map (\<lambda>a. 1000 * 2 ^ (a - 1)) [1..<calls (analyzeCode apiKey parse generate code)] \<and>
      ((\<forall>j<5. tryBlock parse (generate (cleanCode code) j) = None) \<longrightarrow>
         analyzeCode apiKey parse generate code
           = \<lparr>outcome = Inl FailedAfterAttempts, calls = 5, sleeps = [1000, 2000, 4000, 8000]\<rparr>) \<and>
      (outcome (analyzeCode apiKey parse generate code) = Inl FailedAfterAttempts \<longrightarrow>
         calls (analyzeCode apiKey parse generate code) = 5 \<and>
         (\<forall>j<5. tryBlock parse (generate (cleanCode code) j) = None)))"
proof (cases "apiKey \<noteq> None \<and> apiKey \<noteq> Some []")
  case False
  then show ?thesis
    by (auto simp: analyzeCode_def)
next
  case True
  then have run: "analyzeCode apiKey parse generate code
      = retryLoop parse (generate (cleanCode code)) 0 0 []"
    by (simp add: analyzeCode_with_key)
  from retryLoop_runs [of parse "generate (cleanCode code)"]
  show ?thesis
  proof (elim disjE exE conjE)
    fix k v
    assume k: "k < 5"
      and before: "\<forall>j<k. tryBlock parse (generate (cleanCode code) j) = None"
      and at: "tryBlock parse (generate (cleanCode code) k) = Some v"
      and r: "retryLoop parse (generate (cleanCode code)) 0 0 []
                = \<lparr>outcome = Inr v, calls = k + 1, sleeps = take k [1000, 2000, 4000, 8000]\<rparr>"
    from k at have "\<not> (\<forall>j<5. tryBlock parse (generate (cleanCode code) j) = None)"
      by auto
    with k before show ?thesis
      by (simp add: run r backoff_delays)
  next
    assume "\<forall>j<5. tryBlock parse (generate (cleanCode code) j) = None"
      and "retryLoop parse (generate (cleanCode code)) 0 0 []
             = \<lparr>outcome = Inl FailedAfterAttempts, calls = 5, sleeps = [1000, 2000, 4000, 8000]\<rparr>"
    then show ?thesis
      using backoff_delays [of 4] by (simp add: run)
  qed
qed

theorem analyzeCode_retry_budget_witness:
  "analyzeCode (Some (ascii ''key'')) parse_empty_object generate_failing (ascii ''x == 1'')
     = \<lparr>outcome = Inl FailedAfterAttempts, calls = 5, sleeps = [1000, 2000, 4000, 8000]\<rparr> \<and>
   analyzeCode (Some (ascii ''key'')) parse_empty_object generate_fail_twice (ascii ''x == 1'')
     = \<lparr>outcome = Inr (JObject []), calls = 3, sleeps = [1000, 2000]\<rparr>"
proof -
  have key: "Some (ascii ''key'') \<noteq> None \<and> Some (ascii ''key'') \<noteq> Some []"
    by (simp add: ascii_def)
  have "\<forall>j<5. tryBlock parse_empty_object (generate_failing (cleanCode (ascii ''x == 1'')) j) = None"
    by (simp add: tryBlock_def generate_failing_def)
  with key analyzeCode_retry_budget
    [of "Some (ascii ''key'')" parse_empty_object generate_failing "ascii ''x == 1''"]
  have first: "analyzeCode (Some (ascii ''key'')) parse_empty_object generate_failing (ascii ''x == 1'')
     = \<lparr>outcome = Inl FailedAfterAttempts, calls = 5, sleeps = [1000, 2000, 4000, 8000]\<rparr>"
    by blast
  let ?gen = "generate_fail_twice (cleanCode (ascii ''x == 1''))"
  have "retryLoop parse_empty_object ?gen 0 0 [] = retryLoop parse_empty_object ?gen 1 1 [1000]"
    by (intro retryLoop_retry) (simp_all add: tryBlock_def generate_fail_twice_def)
  also have "\<dots> = retryLoop parse_empty_object ?gen 2 2 [1000, 2000]"
    by (intro retryLoop_retry) (simp_all add: tryBlock_def generate_fail_twice_def)
  also have "\<dots> = \<lparr>outcome = Inr (JObject []), calls = 3, sleeps = [1000, 2000]\<rparr>"
    using retryLoop_success [of 2 parse_empty_object ?gen 2 "JObject []" "[1000, 2000]"]
    by (simp add: tryBlock_def generate_fail_twice_def parse_empty_object_def ascii_def)
  finally have second:
    "analyzeCode (Some (ascii ''key'')) parse_empty_object generate_fail_twice (ascii ''x == 1'')
       = \<lparr>outcome = Inr (JObject []), calls = 3, sleeps = [1000, 2000]\<rparr>"
    using key by (simp add: analyzeCode_with_key)
  from first second show ?thesis
    by (simp only:)
qed

text \<open>
  C4, as stated, fails: the response text \<open>{}\<close> parses to the empty object, which has no
  \<open>rawError\<close> and no \<open>trace\<close>, and \<open>analyzeCode\<close> returns it.
\<close>

theorem analyzeCode_unvalidated_counterexample:
  "outcome (analyzeCode (Some (ascii ''key'')) parse_empty_object generate_empty_object (ascii ''x == 1''))
     = Inr (JObject []) \<and>
   \<not> spec_validDiagnosis (JObject [])"
proof -
  have "tryBlock parse_empty_object (generate_empty_object (cleanCode (ascii ''x == 1'')) 0)
          = Some (JObject [])"
    by (simp add: tryBlock_def generate_empty_object_def parse_empty_object_def ascii_def)
  then have "retryLoop parse_empty_object (generate_empty_object (cleanCode (ascii ''x == 1''))) 0 0 []
      = \<lparr>outcome = Inr (JObject []), calls = 0 + 1, sleeps = []\<rparr>"
    by (intro retryLoop_success) simp_all
  then show ?thesis
    by (simp add: analyzeCode_def spec_validDiagnosis_def field_def ascii_def)
qed

text \<open>
  C4, amended. An attempt yields a value exactly when the response has a non-empty text
  that parses as JSON to a value other than \<open>null\<close>; no field of the value is examined.
  With an API key, \<open>analyzeCode\<close> returns \<open>v\<close> exactly when the first of the five attempts
  that does not fail yields \<open>v\<close>.
\<close>

theorem analyzeCode_accepts_parsed_value:
  "(tryBlock parse g = Some v \<longleftrightarrow>
      (\<exists>text. g = Response (Some text) \<and> text \<noteq> [] \<and> parse text = Some v \<and> v \<noteq> JNull)) \<and>
   (apiKey \<noteq> None \<and> apiKey \<noteq> Some [] \<longrightarrow>
      (outcome (analyzeCode apiKey parse generate code) = Inr v \<longleftrightarrow>
         (\<exists>k<5. (\<forall>j<k. tryBlock parse (generate (cleanCode code) j) = None) \<and>
                 tryBlock parse (generate (cleanCode code) k) = Some v)))"
proof (intro conjI impI)
  show "tryBlock parse g = Some v \<longleftrightarrow>
      (\<exists>text. g = Response (Some text) \<and> text \<noteq> [] \<and> parse text = Some v \<and> v \<noteq> JNull)"
    by (auto simp: tryBlock_def split: gen_result.splits option.splits if_splits)
next
  let ?t = "\<lambda>k. tryBlock parse (generate (cleanCode code) k)"
  assume "apiKey \<noteq> None \<and> apiKey \<noteq> Some []"
  then have run: "analyzeCode apiKey parse generate code
      = retryLoop parse (generate (cleanCode code)) 0 0 []"
    by (simp add: analyzeCode_with_key)
  have first_unique: "k = k' \<and> v = v'"
    if "\<forall>j<k. ?t j = None" "?t k = Some v" "\<forall>j<k'. ?t j = None" "?t k' = Some v'" for k k' v v'
    using that by (metis linorder_neqE_nat option.distinct(1) option.inject)
  from retryLoop_runs [of parse "generate (cleanCode code)"]
  show "outcome (analyzeCode apiKey parse generate code) = Inr v \<longleftrightarrow>
         (\<exists>k<5. (\<forall>j<k. ?t j = None) \<and> ?t k = Some v)"
  proof (elim disjE exE conjE)
    fix k' v'
    assume "k' < 5" "\<forall>j<k'. ?t j = None" "?t k' = Some v'"
      and "retryLoop parse (generate (cleanCode code)) 0 0 []
             = \<lparr>outcome = Inr v', calls = k' + 1, sleeps = take k' [1000, 2000, 4000, 8000]\<rparr>"
    then show ?thesis
      using first_unique by (auto simp: run)
  next
    assume "\<forall>j<5. ?t j = None"
      and "retryLoop parse (generate (cleanCode code)) 0 0 []
             = \<lparr>outcome = Inl FailedAfterAttempts, calls = 5, sleeps = [1000, 2000, 4000, 8000]\<rparr>"
    then show ?thesis
      by (auto simp: run)
  qed
qed

theorem analyzeCode_accepts_parsed_value_witness:
  "outcome (analyzeCode (Some (ascii ''key'')) parse_empty_object generate_fail_twice (ascii ''x == 1''))
     = Inr (JObject [])"
proof -
  let ?t = "\<lambda>k. tryBlock parse_empty_object (generate_fail_twice (cleanCode (ascii ''x == 1'')) k)"
  have key: "Some (ascii ''key'') \<noteq> None \<and> Some (ascii ''key'') \<noteq> Some []"
    by (simp add: ascii_def)
  have "(\<forall>j<2. ?t j = None) \<and> ?t 2 = Some (JObject [])"
    by (simp add: tryBlock_def generate_fail_twice_def parse_empty_object_def ascii_def)
  then have "\<exists>k<5. (\<forall>j<k. ?t j = None) \<and> ?t k = Some (JObject [])"
    by (intro exI [of _ 2]) simp
  with key analyzeCode_accepts_parsed_value
    [of parse_empty_object Throws "JObject []" "Some (ascii ''key'')" generate_fail_twice "ascii ''x == 1''"]
  show ?thesis
    by blast
qed

end
